theory Spec2Isabelle
  imports Complex_Main "HOL-Library.Multiset"
begin

section \<open>The relations of \<open>etl.py\<close>\<close>

text \<open>
  A Spark data frame is a bag of rows; it is modelled as a list of records whose
  order carries no meaning. Every column read from JSON is nullable, so every field
  is an \<open>option\<close> (\<open>None\<close> is SQL \<open>NULL\<close>). The \<open>double\<close> columns are only
  copied and compared for equality, so their type is the parameter \<open>'f\<close>.
\<close>

subsection \<open>\<open>process_song_data\<close>\<close>

text \<open>One parsed JSON object of \<open>song_data\<close> (the columns the queries read).\<close>

record 'f song_data_row =
  song_id :: "string option"
  title :: "string option"
  artist_id :: "string option"
  year :: "int option"
  duration :: "'f option"
  artist_name :: "string option"
  artist_location :: "string option"
  artist_latitude :: "'f option"
  artist_longitude :: "'f option"

text \<open>A row of the \<open>songs\<close> relation: \<open>song_id, title, artist_id, year, duration\<close>.\<close>

record 'f songs_row =
  s_song_id :: "string option"
  s_title :: "string option"
  s_artist_id :: "string option"
  s_year :: "int option"
  s_duration :: "'f option"

text \<open>A row of the \<open>artists\<close> relation: \<open>artist_id, name, location, latitude, longitude\<close>.\<close>

record 'f artists_row =
  a_artist_id :: "string option"
  a_name :: "string option"
  a_location :: "string option"
  a_latitude :: "'f option"
  a_longitude :: "'f option"

definition songs_select :: "'f song_data_row \<Rightarrow> 'f songs_row" where
  "songs_select r =
     \<lparr>s_song_id = song_id r, s_title = title r, s_artist_id = artist_id r,
      s_year = year r, s_duration = duration r\<rparr>"

definition artists_select :: "'f song_data_row \<Rightarrow> 'f artists_row" where
  "artists_select r =
     \<lparr>a_artist_id = artist_id r, a_name = artist_name r, a_location = artist_location r,
      a_latitude = artist_latitude r, a_longitude = artist_longitude r\<rparr>"

text \<open>
  \<^verbatim>\<open>SELECT DISTINCT song_id, title, artist_id, year, duration
  FROM songs WHERE song_id IS NOT NULL\<close>
\<close>

definition songs_table :: "'f song_data_row list \<Rightarrow> 'f songs_row list" where
  "songs_table df = remdups (map songs_select (filter (\<lambda>r. song_id r \<noteq> None) df))"

text \<open>
  \<^verbatim>\<open>SELECT artist_id, artist_name as name, artist_location as location,
         artist_latitude as latitude, artist_longitude as longitude
  FROM songs WHERE artist_id IS NOT NULL\<close>
  The query has no \<open>DISTINCT\<close>.
\<close>

definition artists_table :: "'f song_data_row list \<Rightarrow> 'f artists_row list" where
  "artists_table df = map artists_select (filter (\<lambda>r. artist_id r \<noteq> None) df)"

subsection \<open>Python's \<open>datetime.fromtimestamp\<close> and float arithmetic\<close>

text \<open>
  The user-defined function of \<open>process_log_data\<close> is
  \<^verbatim>\<open>lambda x: datetime.fromtimestamp(x/1000).replace(microsecond=0)\<close>.
  \<open>x/1000\<close> is Python's true division of two integers: the exact quotient rounded to
  the nearest IEEE binary64 value, ties to even. A finite binary64 value is a rational
  number, so floats are modelled as \<open>rat\<close> and every float operation rounds its exact
  result with \<open>binary64\<close> (53 significant bits; the exponent range is not limited, which
  does not matter for quotients of 64-bit integers by 1000).
\<close>

datatype error = TypeError | ValueError

text \<open>The number of binary digits of a positive integer (Python's \<open>int.bit_length\<close>).\<close>

function bit_length :: "int \<Rightarrow> nat" where
  "bit_length n = (if n \<le> 0 then 0 else Suc (bit_length (n div 2)))"
  by pat_completeness auto
termination
  by (relation "measure nat") auto

declare bit_length.simps [simp del]

definition pow2 :: "int \<Rightarrow> rat" where
  "pow2 e = (if 0 \<le> e then 2 ^ nat e else 1 / 2 ^ nat (- e))"

definition round_half_even :: "rat \<Rightarrow> int" where
  "round_half_even q =
     (let n = \<lfloor>q\<rfloor>; f = q - of_int n
      in if f < 1 / 2 then n else if 1 / 2 < f then n + 1
         else if even n then n else n + 1)"

text \<open>The exponent \<open>e\<close> with \<open>2 ^ e \<le> \<bar>q\<bar> < 2 ^ (e + 1)\<close>, for \<open>q \<noteq> 0\<close>.\<close>

definition float_exponent :: "rat \<Rightarrow> int" where
  "float_exponent q =
     (let (a, b) = quotient_of \<bar>q\<bar>;
          d = int (bit_length a) - int (bit_length b)
      in if pow2 d \<le> \<bar>q\<bar> then d else d - 1)"

definition binary64 :: "rat \<Rightarrow> rat" where
  "binary64 q =
     (if q = 0 then 0
      else let u = pow2 (float_exponent q - 52)
           in of_int (round_half_even (q / u)) * u)"

definition truediv :: "int \<Rightarrow> int \<Rightarrow> rat" where
  "truediv a b = binary64 (of_int a / of_int b)"

text \<open>\<open>math.modf\<close>: the integral part, truncated towards zero; the rest is the fraction.\<close>

definition modf_int :: "rat \<Rightarrow> int" where
  "modf_int t = (if 0 \<le> t then \<lfloor>t\<rfloor> else \<lceil>t\<rceil>)"

text \<open>A naive \<open>datetime\<close> object.\<close>

record datetime =
  dt_year :: int
  dt_month :: int
  dt_day :: int
  dt_hour :: int
  dt_minute :: int
  dt_second :: int
  dt_microsecond :: int

text \<open>
  The proleptic Gregorian calendar: the civil date of a day number counted from
  1970-01-01, and back.
\<close>

definition civil_from_days :: "int \<Rightarrow> int \<times> int \<times> int" where
  "civil_from_days n =
     (let z = n + 719468;
          era = z div 146097;
          doe = z - era * 146097;
          yoe = (doe - doe div 1460 + doe div 36524 - doe div 146096) div 365;
          doy = doe - (365 * yoe + yoe div 4 - yoe div 100);
          mp = (5 * doy + 2) div 153;
          d = doy - (153 * mp + 2) div 5 + 1;
          m = (if mp < 10 then mp + 3 else mp - 9);
          y = yoe + era * 400
      in (if m \<le> 2 then y + 1 else y, m, d))"

definition days_from_civil :: "int \<Rightarrow> int \<Rightarrow> int \<Rightarrow> int" where
  "days_from_civil y m d =
     (let y' = (if m \<le> 2 then y - 1 else y);
          era = y' div 400;
          yoe = y' - era * 400;
          doy = (153 * (if 2 < m then m - 3 else m + 9) + 2) div 5 + d - 1;
          doe = yoe * 365 + yoe div 4 - yoe div 100 + doy
      in era * 146097 + doe - 719468)"

text \<open>
  \<open>time.localtime\<close> in a process whose local zone is \<open>tz\<close> seconds east of UTC
  (a zone with a fixed offset): year, month, day, hour, minute, second.
\<close>

definition localtime :: "int \<Rightarrow> int \<Rightarrow> int \<times> int \<times> int \<times> int \<times> int \<times> int" where
  "localtime tz t =
     (let l = t + tz; s = l mod 86400
      in case civil_from_days (l div 86400) of
           (y, m, d) \<Rightarrow> (y, m, d, s div 3600, s mod 3600 div 60, s mod 60))"

text \<open>The \<open>datetime\<close> constructor refuses a year outside \<open>1..9999\<close>.\<close>

definition datetime_new ::
  "int \<Rightarrow> int \<Rightarrow> int \<Rightarrow> int \<Rightarrow> int \<Rightarrow> int \<Rightarrow> int \<Rightarrow> error + datetime" where
  "datetime_new y m d hh mm ss us =
     (if 1 \<le> y \<and> y \<le> 9999
      then Inr \<lparr>dt_year = y, dt_month = m, dt_day = d, dt_hour = hh, dt_minute = mm,
                dt_second = ss, dt_microsecond = us\<rparr>
      else Inl ValueError)"

text \<open>
  The seconds between 0001-01-01 00:00:00 and a calendar time, up to a constant (the
  difference of two of them is the \<open>timedelta\<close> between the two datetimes).
\<close>

definition datetime_seconds :: "datetime \<Rightarrow> int" where
  "datetime_seconds x =
     days_from_civil (dt_year x) (dt_month x) (dt_day x) * 86400
       + dt_hour x * 3600 + dt_minute x * 60 + dt_second x"

text \<open>
  \<open>datetime.fromtimestamp(t)\<close> for a float \<open>t\<close> and no \<open>tz\<close> argument:
  \<^verbatim>\<open>frac, t = math.modf(t)
  us = round(frac * 1e6)
  if us >= 1000000: t += 1; us -= 1000000
  elif us < 0:      t -= 1; us += 1000000
  y, m, d, hh, mm, ss, ... = time.localtime(t)
  ss = min(ss, 59)
  result = datetime(y, m, d, hh, mm, ss, us)
  y, m, d, hh, mm, ss = time.localtime(t - 24 * 3600)[:6]
  probe1 = datetime(y, m, d, hh, mm, ss, us)
  trans = result - probe1 - timedelta(0, 24 * 3600)
  if trans.days < 0:
      y, m, d, hh, mm, ss = time.localtime(t + trans // timedelta(0, 1))[:6]
      probe2 = datetime(y, m, d, hh, mm, ss, us)
      if probe2 == result: result._fold = 1
  return result\<close>
  The two probes look for a repeated local hour; each of them builds a \<open>datetime\<close>, and
  so raises \<open>ValueError\<close> when its year is outside \<open>1..9999\<close>. The attribute \<open>fold\<close> is not
  among the fields the relations read, and is left out of the record.
\<close>

definition fromtimestamp :: "int \<Rightarrow> rat \<Rightarrow> error + datetime" where
  "fromtimestamp tz t =
     (let i = modf_int t;
          frac = t - of_int i;
          us = round_half_even (binary64 (frac * 1000000));
          i' = (if 1000000 \<le> us then i + 1 else if us < 0 then i - 1 else i);
          us' = (if 1000000 \<le> us then us - 1000000
                 else if us < 0 then us + 1000000 else us)
      in case localtime tz i' of
           (y, m, d, hh, mm, ss) \<Rightarrow>
             (case datetime_new y m d hh mm (min ss 59) us' of
                Inl e \<Rightarrow> Inl e
              | Inr result \<Rightarrow>
                  (case localtime tz (i' - 86400) of
                     (y1, m1, d1, hh1, mm1, ss1) \<Rightarrow>
                       (case datetime_new y1 m1 d1 hh1 mm1 ss1 us' of
                          Inl e \<Rightarrow> Inl e
                        | Inr probe1 \<Rightarrow>
                            (let trans = datetime_seconds result - datetime_seconds probe1
                                           - 86400
                             in if trans < 0
                                then (case localtime tz (i' + trans) of
                                        (y2, m2, d2, hh2, mm2, ss2) \<Rightarrow>
                                          (case datetime_new y2 m2 d2 hh2 mm2 ss2 us' of
                                             Inl e \<Rightarrow> Inl e
                                           | Inr probe2 \<Rightarrow> Inr result))
                                else Inr result)))))"

text \<open>
  The user-defined function. Spark passes a null \<open>ts\<close> as \<open>None\<close>, and \<open>None/1000\<close>
  raises \<open>TypeError\<close>.
\<close>

definition get_timestamp :: "int \<Rightarrow> int option \<Rightarrow> error + datetime" where
  "get_timestamp tz x =
     (case x of
        None \<Rightarrow> Inl TypeError
      | Some n \<Rightarrow>
          (case fromtimestamp tz (truediv n 1000) of
             Inl e \<Rightarrow> Inl e
           | Inr d \<Rightarrow> Inr (d\<lparr>dt_microsecond := 0\<rparr>)))"

text \<open>
  The description of the same value in the words of the specification: divide by 1000,
  convert the quotient to a calendar timestamp, drop what is below the second.
\<close>

definition spec_timestamp :: "int \<Rightarrow> int \<Rightarrow> error + datetime" where
  "spec_timestamp tz n =
     (case localtime tz \<lfloor>of_int n / (1000 :: rat)\<rfloor> of
        (y, m, d, hh, mm, ss) \<Rightarrow> datetime_new y m d hh mm ss 0)"

subsection \<open>Spark SQL's date functions\<close>

text \<open>
  The column \<open>start_time\<close> holds the calendar timestamp the user-defined function
  returned; the session reads it in the same zone as the Python process, so the date
  functions return the fields of that \<open>datetime\<close>. Each returns \<open>NULL\<close> on \<open>NULL\<close>.
\<close>

definition sql_hour :: "datetime option \<Rightarrow> int option" where
  "sql_hour t = map_option dt_hour t"

definition sql_dayofmonth :: "datetime option \<Rightarrow> int option" where
  "sql_dayofmonth t = map_option dt_day t"

definition sql_month :: "datetime option \<Rightarrow> int option" where
  "sql_month t = map_option dt_month t"

definition sql_year :: "datetime option \<Rightarrow> int option" where
  "sql_year t = map_option dt_year t"

text \<open>\<open>dayofweek\<close>: 1 is Sunday, 7 is Saturday (1970-01-01 was a Thursday).\<close>

definition sql_dayofweek :: "datetime option \<Rightarrow> int option" where
  "sql_dayofweek t =
     map_option (\<lambda>x. (days_from_civil (dt_year x) (dt_month x) (dt_day x) + 4) mod 7 + 1) t"

text \<open>
  \<open>weekofyear\<close>: the ISO 8601 week, which is the week of the year of the Thursday of
  the same Monday-to-Sunday week.
\<close>

definition sql_weekofyear :: "datetime option \<Rightarrow> int option" where
  "sql_weekofyear t =
     map_option
       (\<lambda>x. let n = days_from_civil (dt_year x) (dt_month x) (dt_day x);
                 thursday = n - (n + 3) mod 7 + 3
             in case civil_from_days thursday of
                  (y, m, d) \<Rightarrow> (thursday - days_from_civil y 1 1) div 7 + 1) t"

subsection \<open>\<open>process_log_data\<close>\<close>

text \<open>One parsed JSON object of \<open>log-data\<close> (the columns the queries read).\<close>

record log_row =
  page :: "string option"
  userId :: "string option"
  firstName :: "string option"
  lastName :: "string option"
  gender :: "string option"
  level :: "string option"
  ts :: "int option"
  song :: "string option"
  artist :: "string option"
  sessionId :: "int option"
  location :: "string option"
  userAgent :: "string option"

text \<open>\<open>df.withColumn('start_time', ...)\<close> adds a column to the rows.\<close>

record timed_row = log_row +
  start_time :: "datetime option"

record users_row =
  u_user_id :: "string option"
  u_first_name :: "string option"
  u_last_name :: "string option"
  u_gender :: "string option"
  u_level :: "string option"

record time_row =
  t_start_time :: "datetime option"
  t_hour :: "int option"
  t_day :: "int option"
  t_week :: "int option"
  t_month :: "int option"
  t_year :: "int option"
  t_weekday :: "int option"

record songplays_row =
  sp_songplay_id :: int
  sp_start_time :: "datetime option"
  sp_month :: "int option"
  sp_year :: "int option"
  sp_user_id :: "string option"
  sp_level :: "string option"
  sp_song_id :: "string option"
  sp_artist_id :: "string option"
  sp_session_id :: "int option"
  sp_location :: "string option"
  sp_user_agent :: "string option"

text \<open>
  \<open>df.filter(df.page == 'NextSong')\<close>: a comparison with \<open>NULL\<close> is \<open>NULL\<close>, and the
  filter keeps only the rows where the condition is true.
\<close>

definition is_next_song :: "'a log_row_scheme \<Rightarrow> bool" where
  "is_next_song r \<longleftrightarrow> page r = Some ''NextSong''"

definition filter_next_song :: "log_row list \<Rightarrow> log_row list" where
  "filter_next_song df = filter is_next_song df"

definition users_select :: "log_row \<Rightarrow> users_row" where
  "users_select r =
     \<lparr>u_user_id = userId r, u_first_name = firstName r, u_last_name = lastName r,
      u_gender = gender r, u_level = level r\<rparr>"

text \<open>
  \<^verbatim>\<open>SELECT userId as user_id, firstName as first_name, lastName as last_name, gender, level
  FROM log_data WHERE userId IS NOT NULL\<close>
  The query has no \<open>DISTINCT\<close>.
\<close>

definition users_table :: "log_row list \<Rightarrow> users_row list" where
  "users_table df = map users_select (filter (\<lambda>r. userId r \<noteq> None) df)"

text \<open>
  \<open>df.withColumn('start_time', get_timestamp('ts'))\<close>: the function runs on every row;
  an exception in it fails the job.
\<close>

fun with_start_time :: "int \<Rightarrow> log_row list \<Rightarrow> error + timed_row list" where
  "with_start_time tz [] = Inr []"
| "with_start_time tz (r # rs) =
     (case get_timestamp tz (ts r) of
        Inl e \<Rightarrow> Inl e
      | Inr d \<Rightarrow>
          (case with_start_time tz rs of
             Inl e \<Rightarrow> Inl e
           | Inr rs' \<Rightarrow> Inr (log_row.extend r \<lparr>start_time = Some d\<rparr> # rs')))"

definition time_select :: "timed_row \<Rightarrow> time_row" where
  "time_select r =
     \<lparr>t_start_time = start_time r, t_hour = sql_hour (start_time r),
      t_day = sql_dayofmonth (start_time r), t_week = sql_weekofyear (start_time r),
      t_month = sql_month (start_time r), t_year = sql_year (start_time r),
      t_weekday = sql_dayofweek (start_time r)\<rparr>"

text \<open>
  \<^verbatim>\<open>SELECT start_time, hour(start_time) as hour, dayofmonth(start_time) as day,
         weekofyear(start_time) as week, month(start_time) as month,
         year(start_time) as year, dayofweek(start_time) as weekday
  FROM time WHERE start_time IS NOT NULL\<close>
\<close>

definition time_table :: "timed_row list \<Rightarrow> time_row list" where
  "time_table df = map time_select (filter (\<lambda>r. start_time r \<noteq> None) df)"

text \<open>
  The join condition \<open>a = b\<close> is \<open>NULL\<close> when a side is \<open>NULL\<close>, and an inner join keeps
  a pair of rows only where the condition is true.
\<close>

definition sql_eq :: "'a option \<Rightarrow> 'a option \<Rightarrow> bool" where
  "sql_eq a b \<longleftrightarrow> a \<noteq> None \<and> a = b"

text \<open>
  \<^verbatim>\<open>FROM time se
  JOIN songs_table ss on (ss.title = se.song)
  JOIN artists_table as at on (se.artist == at.name)\<close>
\<close>

definition songplays_join ::
  "timed_row list \<Rightarrow> 'f songs_row list \<Rightarrow> 'f artists_row list \<Rightarrow>
   (timed_row \<times> 'f songs_row \<times> 'f artists_row) list" where
  "songplays_join time_view songs_view artists_view =
     concat (map (\<lambda>se.
       concat (map (\<lambda>ss.
         if sql_eq (s_title ss) (song se)
         then concat (map (\<lambda>ar.
                if sql_eq (artist se) (a_name ar) then [(se, ss, ar)] else [])
                artists_view)
         else []) songs_view)) time_view)"

text \<open>
  The select list of the \<open>songplays\<close> query. \<open>monotonically_increasing_id()\<close> numbers
  the rows of a partition from 0, with the partition number in the upper bits; the
  result is taken to be in one partition.
\<close>

definition songplays_select ::
  "nat \<times> timed_row \<times> 'f songs_row \<times> 'f artists_row \<Rightarrow> songplays_row" where
  "songplays_select x =
     (case x of (i, se, ss, ar) \<Rightarrow>
        \<lparr>sp_songplay_id = int i, sp_start_time = start_time se,
         sp_month = sql_month (start_time se), sp_year = sql_year (start_time se),
         sp_user_id = userId se, sp_level = level se, sp_song_id = s_song_id ss,
         sp_artist_id = a_artist_id ar, sp_session_id = sessionId se,
         sp_location = location se, sp_user_agent = userAgent se\<rparr>)"

definition songplays_table ::
  "timed_row list \<Rightarrow> 'f songs_row list \<Rightarrow> 'f artists_row list \<Rightarrow> songplays_row list" where
  "songplays_table time_view songs_view artists_view =
     map songplays_select (enumerate 0 (songplays_join time_view songs_view artists_view))"

subsection \<open>The output location and the two transforms\<close>

text \<open>
  The five relations under \<open>output_data\<close>. Every write is in mode \<open>overwrite\<close>: it
  replaces what the location held.
\<close>

record 'f store =
  songs :: "'f songs_row list"
  artists :: "'f artists_row list"
  users :: "users_row list"
  timetable :: "time_row list"
  songsplay :: "songplays_row list"

definition process_song_data :: "'f song_data_row list \<Rightarrow> 'f store \<Rightarrow> 'f store" where
  "process_song_data df st = st\<lparr>songs := songs_table df, artists := artists_table df\<rparr>"

text \<open>
  \<open>process_log_data\<close> writes \<open>users\<close>, then derives \<open>start_time\<close>; when the user-defined
  function raises, the run stops with \<open>users\<close> written and the other two relations as
  they were. \<open>tz\<close> is the local zone of the run. The result is the exception, if any,
  and the output location.
\<close>

definition process_log_data ::
  "int \<Rightarrow> log_row list \<Rightarrow> 'f store \<Rightarrow> error option \<times> 'f store" where
  "process_log_data tz log_df st =
     (let df = filter_next_song log_df;
          st1 = st\<lparr>users := users_table df\<rparr>
      in case with_start_time tz df of
           Inl e \<Rightarrow> (Some e, st1)
         | Inr time_view \<Rightarrow>
             (None, st1\<lparr>timetable := time_table time_view,
                        songsplay := songplays_table time_view (songs st1) (artists st1)\<rparr>))"

definition main ::
  "int \<Rightarrow> 'f song_data_row list \<Rightarrow> log_row list \<Rightarrow> 'f store \<Rightarrow> error option \<times> 'f store" where
  "main tz song_df log_df st = process_log_data tz log_df (process_song_data song_df st)"

subsection \<open>Example inputs\<close>

text \<open>
  The catalog record and the play event of the end-to-end scenario, and variations of
  them: the same song under another title, a second song of the same artist credited
  under a longer name, and a song of another artist with the same title.
\<close>

definition song_A :: "rat song_data_row" where
  "song_A =
     \<lparr>song_id = Some ''S1'', title = Some ''Song A'', artist_id = Some ''P1'',
      year = Some 2000, duration = Some 180, artist_name = Some ''Band X'',
      artist_location = Some ''NYC'', artist_latitude = Some (407 / 10),
      artist_longitude = Some (- 74)\<rparr>"

definition song_A_retitled :: "rat song_data_row" where
  "song_A_retitled = song_A\<lparr>title := Some ''Song A (live)''\<rparr>"

definition song_B :: "rat song_data_row" where
  "song_B =
     song_A\<lparr>song_id := Some ''S2'', title := Some ''Song B'',
            artist_name := Some ''Band X feat. Y''\<rparr>"

definition song_A_cover :: "rat song_data_row" where
  "song_A_cover =
     song_A\<lparr>song_id := Some ''S3'', artist_id := Some ''P2'',
            artist_name := Some ''Band Y''\<rparr>"

definition play_event :: log_row where
  "play_event =
     \<lparr>page = Some ''NextSong'', userId = Some ''10'', firstName = Some ''Sam'',
      lastName = Some ''Lee'', gender = Some ''M'', level = Some ''free'',
      ts = Some 1541121934796, song = Some ''Song A'', artist = Some ''Band X'',
      sessionId = Some 5, location = Some ''NYC'', userAgent = Some ''UA''\<rparr>"

text \<open>A later play of the same user, of a song that is not in the catalog.\<close>

definition play_event_later :: log_row where
  "play_event_later = play_event\<lparr>ts := Some 1541122000000, song := Some ''Song Z''\<rparr>"


text \<open>A play of a visitor who is not logged in: the log has an empty \<open>userId\<close>.\<close>

definition play_event_anonymous :: log_row where
  "play_event_anonymous =
     play_event\<lparr>userId := Some [], firstName := None, lastName := None,
                gender := None\<rparr>"

text \<open>An event of another page, without a timestamp.\<close>

definition home_event :: log_row where
  "home_event = play_event\<lparr>page := Some ''Home'', ts := None, song := None, artist := None\<rparr>"

definition empty_store :: "rat store" where
  "empty_store = \<lparr>songs = [], artists = [], users = [], timetable = [], songsplay = []\<rparr>"

text \<open>The local times of the two plays in a process running in UTC.\<close>

definition play_time :: datetime where
  "play_time =
     \<lparr>dt_year = 2018, dt_month = 11, dt_day = 2, dt_hour = 1, dt_minute = 25,
      dt_second = 34, dt_microsecond = 0\<rparr>"


text \<open>The last second of 2017 in UTC, and the same instant one hour east of UTC.\<close>

definition year_end_utc :: datetime where
  "year_end_utc =
     \<lparr>dt_year = 2017, dt_month = 12, dt_day = 31, dt_hour = 23, dt_minute = 59,
      dt_second = 59, dt_microsecond = 0\<rparr>"

definition year_end_east :: datetime where
  "year_end_east =
     \<lparr>dt_year = 2018, dt_month = 1, dt_day = 1, dt_hour = 0, dt_minute = 59,
      dt_second = 59, dt_microsecond = 0\<rparr>"

text \<open>The output location after the end-to-end scenario: one row in each relation.\<close>

definition scenario_store :: "rat store" where
  "scenario_store =
     \<lparr>songs = [\<lparr>s_song_id = Some ''S1'', s_title = Some ''Song A'',
                 s_artist_id = Some ''P1'', s_year = Some 2000, s_duration = Some 180\<rparr>],
      artists = [\<lparr>a_artist_id = Some ''P1'', a_name = Some ''Band X'',
                   a_location = Some ''NYC'', a_latitude = Some (407 / 10),
                   a_longitude = Some (- 74)\<rparr>],
      users = [\<lparr>u_user_id = Some ''10'', u_first_name = Some ''Sam'',
                 u_last_name = Some ''Lee'', u_gender = Some ''M'', u_level = Some ''free''\<rparr>],
      timetable = [\<lparr>t_start_time = Some play_time, t_hour = Some 1, t_day = Some 2,
                     t_week = Some 44, t_month = Some 11, t_year = Some 2018,
                     t_weekday = Some 6\<rparr>],
      songsplay = [\<lparr>sp_songplay_id = 0, sp_start_time = Some play_time,
                     sp_month = Some 11, sp_year = Some 2018, sp_user_id = Some ''10'',
                     sp_level = Some ''free'', sp_song_id = Some ''S1'',
                     sp_artist_id = Some ''P1'', sp_session_id = Some 5,
                     sp_location = Some ''NYC'', sp_user_agent = Some ''UA''\<rparr>]\<rparr>"

section \<open>The catalog relations\<close>

lemma songs_table_distinct: "distinct (songs_table df)"
  by (simp add: songs_table_def)

lemma songs_table_set:
  "set (songs_table df) = songs_select ` {r \<in> set df. song_id r \<noteq> None}"
  by (simp add: songs_table_def)

lemma artists_table_set:
  "set (artists_table df) = artists_select ` {r \<in> set df. artist_id r \<noteq> None}"
  by (simp add: artists_table_def)

lemma songs_ids_not_null: "None \<notin> s_song_id ` set (songs_table df)"
  by (auto simp: songs_table_set songs_select_def)

lemma artists_ids_not_null: "None \<notin> a_artist_id ` set (artists_table df)"
  by (auto simp: artists_table_set artists_select_def)

text \<open>
  C2, as stated: \<open>artists\<close> is the distinct projection of the catalog records with an
  artist identifier, and so has exactly one row for each artist identifier. It fails on
  two songs of one artist whose records spell the artist's name differently: the
  identifier \<open>P1\<close> is in two rows.
\<close>

theorem artists_one_row_per_id_counterexample:
  "\<not> distinct (map a_artist_id (artists_table [song_A, song_B]))"
  by (simp add: artists_table_def artists_select_def song_A_def song_B_def)

text \<open>
  C2, amended: as a set of rows, \<open>artists\<close> is the projection
  \<open>(artist_id, name, location, latitude, longitude)\<close> of the catalog records whose
  \<open>artist_id\<close> is not null, which is also the set of rows of the distinct projection;
  and the identifiers in it are exactly the non-null artist identifiers of the input,
  each in at least one row.
\<close>

theorem artists_table_rows:
  "set (artists_table df) =
     set (remdups (map artists_select (filter (\<lambda>r. artist_id r \<noteq> None) df)))
   \<and> a_artist_id ` set (artists_table df) = artist_id ` set df - {None}"
  by (force simp: artists_table_def artists_select_def image_iff)

text \<open>
  C4, as stated: neither \<open>songs\<close> nor \<open>artists\<close> has two rows with the same
  identifier. \<open>DISTINCT\<close> compares whole rows, so a song identifier that the input
  carries with two titles is in two rows of \<open>songs\<close>.
\<close>

theorem songs_same_id_counterexample:
  "\<not> distinct (map s_song_id (songs_table [song_A, song_A_retitled]))"
  by (simp add: songs_table_def songs_select_def song_A_def song_A_retitled_def)

text \<open>
  C4, amended: \<open>songs\<close> has no two equal rows and no null identifier, and \<open>artists\<close>
  has no null identifier.
\<close>

theorem catalog_relations_keys:
  "distinct (songs_table df) \<and> None \<notin> s_song_id ` set (songs_table df)
   \<and> None \<notin> a_artist_id ` set (artists_table df)"
  using songs_table_distinct songs_ids_not_null artists_ids_not_null by blast

section \<open>Float rounding and the timestamp function\<close>

lemma pow2_powi: "pow2 e = 2 powi e"
  by (simp add: pow2_def power_int_def inverse_eq_divide power_one_over)


lemma pow2_add: "pow2 (a + b) = pow2 a * pow2 b"
  by (simp add: pow2_powi power_int_add)




























text \<open>
  The probe a day back makes the function raise on the first local day of year 1, whose
  instants do have a calendar timestamp; from the second day on it returns.
\<close>

lemma year_one_first_day:
  "get_timestamp 0 (Some (- 62135596800000)) = Inl ValueError"
  "get_timestamp 0 (Some (- 62135510400001)) = Inl ValueError"
  "spec_timestamp 0 (- 62135596800000)
     = Inr \<lparr>dt_year = 1, dt_month = 1, dt_day = 1, dt_hour = 0, dt_minute = 0,
            dt_second = 0, dt_microsecond = 0\<rparr>"
  "get_timestamp 0 (Some (- 62135510400000))
     = Inr \<lparr>dt_year = 1, dt_month = 1, dt_day = 2, dt_hour = 0, dt_minute = 0,
            dt_second = 0, dt_microsecond = 0\<rparr>"
  by code_simp+

section \<open>The event relations\<close>


lemma filter_next_song_drop:
  "\<not> is_next_song r \<Longrightarrow> filter_next_song (xs @ r # ys) = filter_next_song (xs @ ys)"
  by (simp add: filter_next_song_def)


lemma with_start_time_rows:
  "with_start_time tz df = Inr tv \<Longrightarrow> map log_row.truncate tv = df"
  by (induction df arbitrary: tv)
     (auto split: sum.splits simp: log_row.truncate_def log_row.extend_def)

lemma with_start_time_length:
  "with_start_time tz df = Inr tv \<Longrightarrow> length tv = length df"
  using with_start_time_rows [of tz df tv] by (metis length_map)

lemma with_start_time_not_null:
  "with_start_time tz df = Inr tv \<Longrightarrow> r \<in> set tv \<Longrightarrow> start_time r \<noteq> None"
  by (induction df arbitrary: tv)
     (auto split: sum.splits simp: log_row.extend_def)

lemma process_log_data_ok:
  assumes "process_log_data tz log_df st = (None, st')"
  shows "\<exists>tv. with_start_time tz (filter_next_song log_df) = Inr tv
           \<and> st' = st\<lparr>users := users_table (filter_next_song log_df),
                      timetable := time_table tv,
                      songsplay := songplays_table tv (songs st) (artists st)\<rparr>"
  using assms by (auto simp: process_log_data_def Let_def split: sum.splits)

lemma process_log_data_users:
  "users (snd (process_log_data tz log_df st)) = users_table (filter_next_song log_df)"
  by (simp add: process_log_data_def Let_def split: sum.splits)


lemma songplays_join_Cons:
  "songplays_join (r # b) sv av = songplays_join [r] sv av @ songplays_join b sv av"
  by (simp add: songplays_join_def)


lemma songplays_join_mem:
  "(se, ss, ar) \<in> set (songplays_join tv sv av) \<Longrightarrow>
     se \<in> set tv \<and> ss \<in> set sv \<and> ar \<in> set av
     \<and> sql_eq (s_title ss) (song se) \<and> sql_eq (artist se) (a_name ar)"
  by (auto simp: songplays_join_def split: if_splits)

lemma songplays_table_mem:
  assumes "p \<in> set (songplays_table tv sv av)"
  shows "\<exists>se ss ar. se \<in> set tv \<and> ss \<in> set sv \<and> ar \<in> set av
           \<and> sp_song_id p = s_song_id ss \<and> sp_artist_id p = a_artist_id ar
           \<and> sp_start_time p = start_time se \<and> sp_user_id p = userId se"
proof -
  from assms obtain i se ss ar where
    "(i, se, ss, ar) \<in> set (enumerate 0 (songplays_join tv sv av))"
    and p: "p = songplays_select (i, se, ss, ar)"
    unfolding songplays_table_def by auto
  then have "i < length (songplays_join tv sv av)"
    and "songplays_join tv sv av ! i = (se, ss, ar)"
    by (auto simp: in_set_enumerate_eq)
  then have "(se, ss, ar) \<in> set (songplays_join tv sv av)"
    by (metis nth_mem)
  from songplays_join_mem [OF this] p show ?thesis
    by (auto simp: songplays_select_def)
qed

lemma join_row_length:
  "length (concat (map (\<lambda>ss. if P ss
                         then concat (map (\<lambda>ar. if Q ar then [f ss ar] else []) av)
                         else []) sv))
     = length (filter P sv) * length (filter Q av)"
proof -
  have inner: "\<And>ss. length (concat (map (\<lambda>ar. if Q ar then [f ss ar] else []) av))
                 = length (filter Q av)"
    by (induction av) auto
  show ?thesis by (induction sv) (auto simp: inner)
qed

lemma songplays_join_length:
  "length (songplays_join tv sv av) =
     (\<Sum>se\<leftarrow>tv. length (filter (\<lambda>ss. sql_eq (s_title ss) (song se)) sv)
               * length (filter (\<lambda>ar. sql_eq (artist se) (a_name ar)) av))"
proof (induction tv)
  case Nil
  show ?case by (simp add: songplays_join_def)
next
  case (Cons r tv)
  have "length (songplays_join [r] sv av) =
          length (filter (\<lambda>ss. sql_eq (s_title ss) (song r)) sv)
          * length (filter (\<lambda>ar. sql_eq (artist r) (a_name ar)) av)"
    unfolding songplays_join_def
    using join_row_length [of "\<lambda>ss. sql_eq (s_title ss) (song r)"
        "\<lambda>ar. sql_eq (artist r) (a_name ar)" "\<lambda>ss ar. (r, ss, ar)" av sv]
    by simp
  with Cons show ?case
    by (simp add: songplays_join_Cons [of r tv])
qed

lemma sum_list_le_const:
  "(\<And>x. x \<in> set xs \<Longrightarrow> f x \<le> (c::nat)) \<Longrightarrow> sum_list (map f xs) \<le> length xs * c"
  by (induction xs) (auto simp: add_mono)

lemma filter_key_length:
  "distinct (map f xs) \<Longrightarrow> length (filter (\<lambda>x. f x = k) xs) \<le> 1"
proof (induction xs)
  case Nil
  show ?case by simp
next
  case (Cons x xs)
  show ?case
  proof (cases "f x = k")
    case True
    from Cons.prems have "f x \<notin> f ` set xs" by simp
    then have "\<forall>y \<in> set xs. f y \<noteq> f x" by (metis imageI)
    with True have "\<forall>y \<in> set xs. f y \<noteq> k" by simp
    then have "filter (\<lambda>x. f x = k) xs = []" by (simp add: filter_empty_conv)
    with True show ?thesis by simp
  next
    case False
    with Cons show ?thesis by simp
  qed
qed

lemma filter_sql_eq_title_length:
  assumes "distinct (map s_title sv)"
  shows "length (filter (\<lambda>ss. sql_eq (s_title ss) k) sv) \<le> 1"
proof -
  have "length (filter (\<lambda>ss. sql_eq (s_title ss) k) sv)
          \<le> length (filter (\<lambda>ss. s_title ss = k) sv)"
    by (induction sv) (auto simp: sql_eq_def)
  with filter_key_length [OF assms, of k] show ?thesis by linarith
qed

lemma filter_sql_eq_name_length:
  assumes "distinct (map a_name av)"
  shows "length (filter (\<lambda>ar. sql_eq k (a_name ar)) av) \<le> 1"
proof -
  have "length (filter (\<lambda>ar. sql_eq k (a_name ar)) av)
          \<le> length (filter (\<lambda>ar. a_name ar = k) av)"
    by (induction av) (auto simp: sql_eq_def)
  with filter_key_length [OF assms, of k] show ?thesis by linarith
qed

lemma songplays_join_length_product:
  "length (songplays_join tv sv av) \<le> length tv * (length sv * length av)"
  unfolding songplays_join_length
  by (rule sum_list_le_const) (simp add: mult_le_mono)

lemma songplays_join_length_keys:
  assumes "distinct (map s_title sv)" and "distinct (map a_name av)"
  shows "length (songplays_join tv sv av) \<le> length tv"
proof -
  have "length (songplays_join tv sv av) \<le> length tv * 1"
    unfolding songplays_join_length
  proof (rule sum_list_le_const)
    fix se
    have "length (filter (\<lambda>ss. sql_eq (s_title ss) (song se)) sv)
          * length (filter (\<lambda>ar. sql_eq (artist se) (a_name ar)) av) \<le> 1 * 1"
      by (rule mult_le_mono [OF filter_sql_eq_title_length [OF assms(1)]
            filter_sql_eq_name_length [OF assms(2)]])
    then show "length (filter (\<lambda>ss. sql_eq (s_title ss) (song se)) sv)
          * length (filter (\<lambda>ar. sql_eq (artist se) (a_name ar)) av) \<le> 1" by simp
  qed
  then show ?thesis by simp
qed

lemma songplays_table_length:
  "length (songplays_table tv sv av) = length (songplays_join tv sv av)"
  by (simp add: songplays_table_def)

subsection \<open>The end-to-end scenario\<close>

lemma scenario_time_columns:
  "sql_hour (Some play_time) = Some 1" "sql_dayofmonth (Some play_time) = Some 2"
  "sql_weekofyear (Some play_time) = Some 44" "sql_month (Some play_time) = Some 11"
  "sql_year (Some play_time) = Some 2018" "sql_dayofweek (Some play_time) = Some 6"
  by code_simp+

lemma play_event_timestamp: "get_timestamp 0 (Some 1541121934796) = Inr play_time"
  by code_simp


lemma scenario_catalog:
  "process_song_data [song_A] empty_store =
     empty_store\<lparr>songs := songs scenario_store, artists := artists scenario_store\<rparr>"
  by (simp add: process_song_data_def songs_table_def artists_table_def songs_select_def
      artists_select_def song_A_def scenario_store_def)

lemma scenario_time_view:
  "with_start_time 0 (filter_next_song [play_event]) =
     Inr [log_row.extend play_event \<lparr>start_time = Some play_time\<rparr>]"
proof -
  have "filter_next_song [play_event] = [play_event]"
    by (simp add: filter_next_song_def is_next_song_def play_event_def)
  moreover have "ts play_event = Some 1541121934796" by (simp add: play_event_def)
  ultimately show ?thesis by (simp add: play_event_timestamp)
qed

lemma scenario_run: "main 0 [song_A] [play_event] empty_store = (None, scenario_store)"
proof -
  have j: "songplays_join [log_row.extend play_event \<lparr>start_time = Some play_time\<rparr>]
             (songs scenario_store) (artists scenario_store)
           = [(log_row.extend play_event \<lparr>start_time = Some play_time\<rparr>,
               hd (songs scenario_store), hd (artists scenario_store))]"
    by (simp add: songplays_join_def sql_eq_def scenario_store_def play_event_def
        log_row.extend_def)
  have u: "users_table (filter_next_song [play_event]) = users scenario_store"
    by (simp add: users_table_def filter_next_song_def is_next_song_def users_select_def
        play_event_def scenario_store_def)
  have t: "time_table [log_row.extend play_event \<lparr>start_time = Some play_time\<rparr>]
             = timetable scenario_store"
    by (simp add: time_table_def time_select_def scenario_time_columns scenario_store_def
        log_row.extend_def)
  have p: "songplays_table [log_row.extend play_event \<lparr>start_time = Some play_time\<rparr>]
             (songs scenario_store) (artists scenario_store) = songsplay scenario_store"
    unfolding songplays_table_def j
    by (simp add: songplays_select_def scenario_time_columns scenario_store_def
        log_row.extend_def play_event_def enumerate_eq_zip)
  show ?thesis
    unfolding main_def scenario_catalog process_log_data_def Let_def
    by (simp add: scenario_time_view u t p)
qed

section \<open>Properties of the event relations\<close>

text \<open>
  C1, as stated: \<open>songplays\<close> has at most as many rows as the log has play rows. The
  join is on the title alone, and then on the artist name alone: with two songs of the
  same title in the catalog, one play gives two \<open>songplays\<close> rows.
\<close>

theorem songplays_count_counterexample:
  "\<not> length (songsplay (snd (main 0 [song_A, song_A_cover] [play_event] empty_store)))
       \<le> length (filter_next_song [play_event])"
  by code_simp

text \<open>
  C1, amended: after a run that did not fail, the \<open>song_id\<close> and \<open>artist_id\<close> of every
  \<open>songplays\<close> row are identifiers of rows of \<open>songs\<close> and \<open>artists\<close>; the number of
  \<open>songplays\<close> rows is at most the number of play rows times the number of \<open>songs\<close> rows
  times the number of \<open>artists\<close> rows, and at most the number of play rows when no two
  \<open>songs\<close> rows have the same title and no two \<open>artists\<close> rows the same name.
\<close>

theorem songplays_resolve_and_bound:
  assumes "process_log_data tz log_df st = (None, st')"
  shows "(\<forall>p \<in> set (songsplay st').
            sp_song_id p \<in> s_song_id ` set (songs st')
          \<and> sp_artist_id p \<in> a_artist_id ` set (artists st'))
       \<and> length (songsplay st')
            \<le> length (filter_next_song log_df) * (length (songs st') * length (artists st'))
       \<and> (distinct (map s_title (songs st')) \<and> distinct (map a_name (artists st'))
            \<longrightarrow> length (songsplay st') \<le> length (filter_next_song log_df))"
proof -
  from process_log_data_ok [OF assms] obtain tv where
    tv: "with_start_time tz (filter_next_song log_df) = Inr tv"
    and sp: "songsplay st' = songplays_table tv (songs st) (artists st)"
    and s: "songs st' = songs st" and a: "artists st' = artists st"
    by auto
  have len: "length tv = length (filter_next_song log_df)"
    by (rule with_start_time_length [OF tv])
  have "\<forall>p \<in> set (songsplay st').
            sp_song_id p \<in> s_song_id ` set (songs st')
          \<and> sp_artist_id p \<in> a_artist_id ` set (artists st')"
    unfolding sp s a using songplays_table_mem by (metis image_eqI)
  moreover have "length (songsplay st')
            \<le> length (filter_next_song log_df) * (length (songs st') * length (artists st'))"
    unfolding sp s a songplays_table_length len [symmetric]
    by (rule songplays_join_length_product)
  moreover have "distinct (map s_title (songs st')) \<and> distinct (map a_name (artists st'))
            \<longrightarrow> length (songsplay st') \<le> length (filter_next_song log_df)"
    unfolding sp s a songplays_table_length len [symmetric]
    using songplays_join_length_keys by blast
  ultimately show ?thesis by blast
qed

theorem songplays_resolve_and_bound_witness:
  "process_log_data 0 [play_event] (process_song_data [song_A] empty_store)
     = (None, scenario_store)
   \<and> hd (songsplay scenario_store) \<in> set (songsplay scenario_store)
   \<and> sp_song_id (hd (songsplay scenario_store)) \<in> s_song_id ` set (songs scenario_store)
   \<and> sp_artist_id (hd (songsplay scenario_store))
       \<in> a_artist_id ` set (artists scenario_store)
   \<and> distinct (map s_title (songs scenario_store))
   \<and> distinct (map a_name (artists scenario_store))
   \<and> length (songsplay scenario_store) \<le> length (filter_next_song [play_event])"
proof -
  have h: "process_log_data 0 [play_event] (process_song_data [song_A] empty_store)
             = (None, scenario_store)"
    using scenario_run by (simp add: main_def)
  have m: "hd (songsplay scenario_store) \<in> set (songsplay scenario_store)"
    by (simp add: scenario_store_def)
  have d: "distinct (map s_title (songs scenario_store))"
    "distinct (map a_name (artists scenario_store))"
    by (simp_all add: scenario_store_def)
  from songplays_resolve_and_bound [OF h] m d h show ?thesis by blast
qed

text \<open>
  C3: \<open>users\<close> is stated to be the distinct projection of the play rows with a user
  identifier. The \<open>users\<close> query has no \<open>DISTINCT\<close> (the \<open>songs\<close> query has one): two
  plays of one user put the same row into \<open>users\<close> twice.
\<close>

theorem users_table_repeats_user:
  "users (snd (process_log_data 0 [play_event, play_event_later] empty_store))
     = [users_select play_event, users_select play_event]
   \<and> users_select play_event =
       \<lparr>u_user_id = Some ''10'', u_first_name = Some ''Sam'', u_last_name = Some ''Lee'',
        u_gender = Some ''M'', u_level = Some ''free''\<rparr>"
  by (simp add: process_log_data_users users_table_def filter_next_song_def is_next_song_def
      users_select_def play_event_def play_event_later_def)

text \<open>
  C5: an input row whose \<open>page\<close> is not \<open>NextSong\<close> (or is null) contributes
  nothing: wherever it stands in the log, the run ends as it does without the row, with
  the same \<open>users\<close>, \<open>timetable\<close> and \<open>songsplay\<close> relations and the same outcome. The
  row is dropped by the filter before the timestamp function sees it, so it raises
  nothing, whatever its \<open>ts\<close>.
\<close>

theorem other_pages_contribute_nothing:
  "page r \<noteq> Some ''NextSong'' \<Longrightarrow>
     process_log_data tz (xs @ r # ys) st = process_log_data tz (xs @ ys) st"
  by (simp add: process_log_data_def filter_next_song_def is_next_song_def)

theorem other_pages_contribute_nothing_witness:
  "page home_event \<noteq> Some ''NextSong''
   \<and> process_log_data 0 ([play_event] @ home_event # [play_event_later]) empty_store
       = process_log_data 0 ([play_event] @ [play_event_later]) empty_store"
proof -
  have h: "page home_event \<noteq> Some ''NextSong''"
    by (simp add: home_event_def play_event_def)
  with other_pages_contribute_nothing [OF h, of 0 "[play_event]" "[play_event_later]" empty_store]
  show ?thesis by simp
qed





text \<open>
  C7: in the \<open>timetable\<close> relation a run writes, the columns hour, day, week, month, year
  and weekday of every row are the values of the date functions at the row's own
  \<open>start_time\<close>; so two rows with equal \<open>start_time\<close> agree on all six columns, and
  deriving the columns again from a row's \<open>start_time\<close> gives the same values.
\<close>

theorem time_columns_determined:
  assumes "process_log_data tz log_df st = (None, st')"
  shows "(\<forall>r \<in> set (timetable st').
            t_hour r = sql_hour (t_start_time r) \<and> t_day r = sql_dayofmonth (t_start_time r)
          \<and> t_week r = sql_weekofyear (t_start_time r) \<and> t_month r = sql_month (t_start_time r)
          \<and> t_year r = sql_year (t_start_time r) \<and> t_weekday r = sql_dayofweek (t_start_time r))
       \<and> (\<forall>r1 \<in> set (timetable st'). \<forall>r2 \<in> set (timetable st').
            t_start_time r1 = t_start_time r2 \<longrightarrow>
              t_hour r1 = t_hour r2 \<and> t_day r1 = t_day r2 \<and> t_week r1 = t_week r2
            \<and> t_month r1 = t_month r2 \<and> t_year r1 = t_year r2 \<and> t_weekday r1 = t_weekday r2)"
proof -
  from process_log_data_ok [OF assms] obtain tv where
    tt: "timetable st' = time_table tv" by auto
  have fn: "\<And>r. r \<in> set (time_table tv) \<Longrightarrow>
            t_hour r = sql_hour (t_start_time r) \<and> t_day r = sql_dayofmonth (t_start_time r)
          \<and> t_week r = sql_weekofyear (t_start_time r) \<and> t_month r = sql_month (t_start_time r)
          \<and> t_year r = sql_year (t_start_time r) \<and> t_weekday r = sql_dayofweek (t_start_time r)"
    by (auto simp: time_table_def time_select_def)
  show ?thesis unfolding tt using fn by metis
qed

theorem time_columns_determined_witness:
  "process_log_data 0 [play_event] (process_song_data [song_A] empty_store)
     = (None, scenario_store)
   \<and> hd (timetable scenario_store) \<in> set (timetable scenario_store)
   \<and> t_hour (hd (timetable scenario_store))
       = sql_hour (t_start_time (hd (timetable scenario_store)))
   \<and> t_week (hd (timetable scenario_store))
       = sql_weekofyear (t_start_time (hd (timetable scenario_store)))
   \<and> t_weekday (hd (timetable scenario_store))
       = sql_dayofweek (t_start_time (hd (timetable scenario_store)))"
proof -
  have h: "process_log_data 0 [play_event] (process_song_data [song_A] empty_store)
             = (None, scenario_store)"
    using scenario_run by (simp add: main_def)
  have m: "hd (timetable scenario_store) \<in> set (timetable scenario_store)"
    by (simp add: scenario_store_def)
  from time_columns_determined [OF h] m h show ?thesis by blast
qed




text \<open>
  C9: the timestamp is a function of \<open>ts\<close> and of the local zone of the process, not
  of \<open>ts\<close> alone. The value \<open>ts = 1514764799000\<close> is the last second of 2017 in a
  process running in UTC and the first hour of 2018 in one running an hour east of it,
  and the two \<open>timetable\<close> rows differ in hour, day, week, month, year and weekday. For
  a fixed zone the timestamp is a function of \<open>ts\<close>: \<open>get_timestamp tz\<close>.
\<close>

theorem timestamp_depends_on_timezone:
  "get_timestamp 0 (Some 1514764799000) = Inr year_end_utc
   \<and> get_timestamp 3600 (Some 1514764799000) = Inr year_end_east
   \<and> time_select (log_row.extend play_event \<lparr>start_time = Some year_end_utc\<rparr>)
       = \<lparr>t_start_time = Some year_end_utc, t_hour = Some 23, t_day = Some 31,
          t_week = Some 52, t_month = Some 12, t_year = Some 2017, t_weekday = Some 1\<rparr>
   \<and> time_select (log_row.extend play_event \<lparr>start_time = Some year_end_east\<rparr>)
       = \<lparr>t_start_time = Some year_end_east, t_hour = Some 0, t_day = Some 1,
          t_week = Some 1, t_month = Some 1, t_year = Some 2018, t_weekday = Some 2\<rparr>"
  by code_simp

text \<open>
  C10: \<open>userId IS NOT NULL\<close> excludes nulls only. A play row whose \<open>userId\<close> is the
  empty string is in \<open>users\<close>, with the empty string as its identifier.
\<close>

theorem empty_user_id_is_kept:
  assumes "r \<in> set log_df" and "page r = Some ''NextSong''" and "userId r = Some []"
  shows "users_select r \<in> set (users (snd (process_log_data tz log_df st)))
         \<and> u_user_id (users_select r) = Some []"
proof -
  from assms have "r \<in> set (filter (\<lambda>r. userId r \<noteq> None) (filter_next_song log_df))"
    by (simp add: filter_next_song_def is_next_song_def)
  then have "users_select r \<in> set (users_table (filter_next_song log_df))"
    unfolding users_table_def by (metis image_eqI set_map)
  moreover have "u_user_id (users_select r) = Some []"
    using assms(3) by (simp add: users_select_def)
  ultimately show ?thesis by (simp add: process_log_data_users)
qed

theorem empty_user_id_is_kept_witness:
  "play_event_anonymous \<in> set [play_event, play_event_anonymous]
   \<and> page play_event_anonymous = Some ''NextSong''
   \<and> userId play_event_anonymous = Some []
   \<and> users_select play_event_anonymous
       \<in> set (users (snd (process_log_data 0 [play_event, play_event_anonymous] empty_store)))
   \<and> u_user_id (users_select play_event_anonymous) = Some []"
proof -
  have a: "play_event_anonymous \<in> set [play_event, play_event_anonymous]" by simp
  have b: "page play_event_anonymous = Some ''NextSong''"
    by (simp add: play_event_anonymous_def play_event_def)
  have c: "userId play_event_anonymous = Some []"
    by (simp add: play_event_anonymous_def)
  from empty_user_id_is_kept [OF a b c, of 0 empty_store] a b c show ?thesis by blast
qed

end
